theory Spec2Isabelle
  imports Main
begin

section \<open>ShotLine: ownership policy and entity store\<close>

text \<open>
  The development follows the Django application \<^verbatim>\<open>ShotLine\<close>: the models of
  \<^verbatim>\<open>models.py\<close>, the permission class of \<^verbatim>\<open>permissions.py\<close>, the serializers of
  \<^verbatim>\<open>serializers.py\<close>, the REST views of \<^verbatim>\<open>views.py\<close> and the admin rules of
  \<^verbatim>\<open>admin.py\<close>. Rows are records, tables are lists of rows, a raised exception is the
  \<open>Inl\<close> branch of a sum, and every operation that can write returns the store next to
  its result, so that "nothing was written" is a statement about that store.
\<close>

subsection \<open>Users and rows\<close>

text \<open>
  A Django user is identified by its primary key; \<open>is_superuser\<close> is the flag of
  \<^verbatim>\<open>django.contrib.auth\<close>. \<^verbatim>\<open>request.user\<close> is \<open>None\<close> for the anonymous user.
  Coordinates are \<^verbatim>\<open>DecimalField(max_digits=9, decimal_places=6)\<close>: an integer number
  of millionths of a degree. The \<^verbatim>\<open>created_at\<close> stamps are left out: no operation
  below reads them.
\<close>

record user =
  user_pk :: nat
  is_superuser :: bool

type_synonym coord = int

type_synonym upload = string

record post =
  post_pk :: nat
  post_author :: nat
  post_text :: string
  location_name :: "string option"
  latitude :: "coord option"
  longitude :: "coord option"

record post_image =
  image_pk :: nat
  image_post :: nat
  image_file :: upload

record like =
  like_pk :: nat
  like_post :: nat
  like_user :: nat

record comment =
  comment_pk :: nat
  comment_post :: nat
  comment_author :: nat
  comment_text :: string

datatype obj = PostObj post | PostImageObj post_image | LikeObj like | CommentObj comment

subsection \<open>Errors\<close>

text \<open>
  The texts of the \<^verbatim>\<open>ValidationError\<close>s of the source are Russian; each is a
  constructor here, named after what it says:
  \<^item> \<open>OnlyOwnObjectsChange\<close>, \<open>OnlyOwnObjectsDelete\<close>: \<^verbatim>\<open>AuthorCheckMixin\<close>,
    "you can change (delete) only your own objects";
  \<^item> \<open>OnlyOwnLikesChange\<close>, \<open>OnlyOwnLikesDelete\<close>: \<^verbatim>\<open>LikeDetail\<close>,
    "you can change (delete) only your own likes";
  \<^item> \<open>AlreadyLiked\<close>: \<^verbatim>\<open>LikeList.perform_create\<close>, "you have already liked this post";
  \<^item> \<open>PostIdRequired\<close>: \<^verbatim>\<open>PostImageList.perform_create\<close>, "post_id is required in URL";
  \<^item> \<open>AtLeastOneImage\<close>: \<^verbatim>\<open>PostSerializer\<close>, "a post must have at least one
    attached image".
\<close>

datatype detail =
    OnlyOwnObjectsChange | OnlyOwnObjectsDelete
  | OnlyOwnLikesChange | OnlyOwnLikesDelete
  | AlreadyLiked | PostIdRequired | AtLeastOneImage

text \<open>
  The exceptions of \<^verbatim>\<open>geopy.exc\<close> that the source names. \<^verbatim>\<open>GeocoderTimedOut\<close> and
  \<^verbatim>\<open>GeocoderUnavailable\<close> are both subclasses of \<^verbatim>\<open>GeocoderServiceError\<close> and are
  unrelated to each other; \<open>isinstance_exc e c\<close> is what \<^verbatim>\<open>except c\<close> tests.
\<close>

datatype geopy_exc = GeocoderTimedOut | GeocoderUnavailable | GeocoderServiceError

fun isinstance_exc :: "geopy_exc \<Rightarrow> geopy_exc \<Rightarrow> bool" where
  "isinstance_exc e GeocoderServiceError = True"
| "isinstance_exc e c = (e = c)"

text \<open>
  What a request can end with: the exceptions of Django REST framework
  (\<open>NotAuthenticated\<close>, \<open>PermissionDenied\<close>, \<open>ValidationError\<close>), \<^verbatim>\<open>Http404\<close> of
  \<^verbatim>\<open>get_object_or_404\<close>, the database's \<open>IntegrityError\<close> (a foreign key without its
  row, a second row for a \<^verbatim>\<open>unique_together\<close> pair), Python's \<open>TypeError\<close>, and a
  geocoder exception that no handler caught.
\<close>

datatype error =
    NotAuthenticated
  | PermissionDenied
  | Http404
  | ValidationError detail
  | IntegrityError
  | TypeError
  | Uncaught geopy_exc

subsection \<open>The permission classes\<close>

datatype http_method = GET | HEAD | OPTIONS | POST | PUT | PATCH | DELETE

definition SAFE_METHODS :: "http_method list" where
  "SAFE_METHODS = [GET, HEAD, OPTIONS]"

fun getattr_author :: "obj \<Rightarrow> nat option" where
  "getattr_author (PostObj p) = Some (post_author p)"
| "getattr_author (CommentObj c) = Some (comment_author c)"
| "getattr_author (PostImageObj i) = None"
| "getattr_author (LikeObj l) = None"

fun getattr_user :: "obj \<Rightarrow> nat option" where
  "getattr_user (LikeObj l) = Some (like_user l)"
| "getattr_user (PostObj p) = None"
| "getattr_user (PostImageObj i) = None"
| "getattr_user (CommentObj c) = None"

text \<open>
  \<^verbatim>\<open>getattr(obj, 'author', None) or getattr(obj, 'user', None)\<close>: a user object is
  truthy, so the first attribute that exists is the answer. \<^verbatim>\<open>PostImage\<close> has neither.
\<close>

definition author_or_user :: "obj \<Rightarrow> nat option" where
  "author_or_user ob =
     (case getattr_author ob of Some a \<Rightarrow> Some a | None \<Rightarrow> getattr_user ob)"

text \<open>
  \<^verbatim>\<open>author == request.user\<close>: two model instances are equal when their primary keys
  are; \<^verbatim>\<open>None\<close> and the anonymous user are equal to no user.
\<close>

fun user_eq :: "nat option \<Rightarrow> user option \<Rightarrow> bool" where
  "user_eq (Some a) (Some u) = (a = user_pk u)"
| "user_eq a u = False"

definition has_object_permission :: "http_method \<Rightarrow> user option \<Rightarrow> obj \<Rightarrow> bool" where
  "has_object_permission m u ob =
     (if m \<in> set SAFE_METHODS then True else user_eq (author_or_user ob) u)"

datatype permission_class = IsAuthenticated | IsAuthenticatedOrReadOnly | IsAuthorOrReadOnly

text \<open>
  \<open>has_perm\<close> is \<^verbatim>\<open>has_permission\<close> (the view-level check) and \<open>has_obj_perm\<close> is
  \<^verbatim>\<open>has_object_permission\<close> of each class; a class that does not override a method
  inherits \<^verbatim>\<open>BasePermission\<close>'s, which returns \<^verbatim>\<open>True\<close>.
\<close>

fun has_perm :: "permission_class \<Rightarrow> http_method \<Rightarrow> user option \<Rightarrow> bool" where
  "has_perm IsAuthenticated m u = (u \<noteq> None)"
| "has_perm IsAuthenticatedOrReadOnly m u = (m \<in> set SAFE_METHODS \<or> u \<noteq> None)"
| "has_perm IsAuthorOrReadOnly m u = True"

fun has_obj_perm :: "permission_class \<Rightarrow> http_method \<Rightarrow> user option \<Rightarrow> obj \<Rightarrow> bool" where
  "has_obj_perm IsAuthorOrReadOnly m u ob = has_object_permission m u ob"
| "has_obj_perm c m u ob = True"

text \<open>
  \<^verbatim>\<open>APIView.permission_denied\<close>: an unauthenticated request gets \<open>NotAuthenticated\<close>,
  an authenticated one \<open>PermissionDenied\<close>.
\<close>

definition permission_denied :: "user option \<Rightarrow> error" where
  "permission_denied u = (case u of None \<Rightarrow> NotAuthenticated | Some _ \<Rightarrow> PermissionDenied)"

text \<open>
  \<^verbatim>\<open>APIView.check_permissions\<close>, run by every view before its handler: the error to
  raise, if any.
\<close>

definition check_permissions ::
  "permission_class list \<Rightarrow> http_method \<Rightarrow> user option \<Rightarrow> error option" where
  "check_permissions classes m u =
     (if list_all (\<lambda>c. has_perm c m u) classes then None else Some (permission_denied u))"

text \<open>
  \<^verbatim>\<open>GenericAPIView.get_object\<close>: the row of the queryset with this primary key or
  \<open>Http404\<close>, then \<^verbatim>\<open>check_object_permissions\<close> on it.
\<close>

definition get_object ::
  "permission_class list \<Rightarrow> http_method \<Rightarrow> user option \<Rightarrow> ('r \<Rightarrow> obj) \<Rightarrow> 'r option
     \<Rightarrow> error + 'r" where
  "get_object classes m u model found =
     (case found of
        None \<Rightarrow> Inl Http404
      | Some r \<Rightarrow>
          if list_all (\<lambda>c. has_obj_perm c m u (model r)) classes then Inr r
          else Inl (permission_denied u))"

text \<open>
  What a detail view (\<^verbatim>\<open>RetrieveUpdateDestroyAPIView\<close>) does before its handler;
  \<open>model\<close> says of which model the rows of the queryset are.
\<close>

definition initial_get_object ::
  "permission_class list \<Rightarrow> http_method \<Rightarrow> user option \<Rightarrow> ('r \<Rightarrow> obj) \<Rightarrow> 'r option
     \<Rightarrow> error + 'r" where
  "initial_get_object classes m u model found =
     (case check_permissions classes m u of
        Some e \<Rightarrow> Inl e
      | None \<Rightarrow> get_object classes m u model found)"

subsection \<open>The admin rules for posts\<close>

text \<open>
  \<^verbatim>\<open>PostAdmin.has_change_permission\<close> and \<^verbatim>\<open>has_delete_permission\<close>; the admin is
  reached by logged-in staff only, so the user is a \<open>user\<close>.
\<close>

definition has_change_permission :: "user \<Rightarrow> post option \<Rightarrow> bool" where
  "has_change_permission u ob =
     (case ob of None \<Rightarrow> True | Some p \<Rightarrow> is_superuser u \<or> post_author p = user_pk u)"

definition has_delete_permission :: "user \<Rightarrow> post option \<Rightarrow> bool" where
  "has_delete_permission u ob =
     (case ob of None \<Rightarrow> True | Some p \<Rightarrow> is_superuser u \<or> post_author p = user_pk u)"

subsection \<open>The store\<close>

text \<open>
  One list of rows per table and the next value of each table's auto-increment key.
\<close>

record store =
  posts :: "post list"
  images :: "post_image list"
  likes :: "like list"
  comments :: "comment list"
  next_post_pk :: nat
  next_image_pk :: nat
  next_like_pk :: nat
  next_comment_pk :: nat

definition empty_store :: store where
  "empty_store =
     \<lparr>posts = [], images = [], likes = [], comments = [],
      next_post_pk = 1, next_image_pk = 1, next_like_pk = 1, next_comment_pk = 1\<rparr>"

definition get_post :: "store \<Rightarrow> nat \<Rightarrow> post option" where
  "get_post st pk = find (\<lambda>p. post_pk p = pk) (posts st)"

definition get_image :: "store \<Rightarrow> nat \<Rightarrow> post_image option" where
  "get_image st pk = find (\<lambda>i. image_pk i = pk) (images st)"

definition get_like :: "store \<Rightarrow> nat \<Rightarrow> like option" where
  "get_like st pk = find (\<lambda>l. like_pk l = pk) (likes st)"

definition get_comment :: "store \<Rightarrow> nat \<Rightarrow> comment option" where
  "get_comment st pk = find (\<lambda>c. comment_pk c = pk) (comments st)"

text \<open>\<^verbatim>\<open>Post.likes_count\<close>: \<^verbatim>\<open>self.likes.count()\<close>, counted on every read.\<close>

definition likes_count :: "store \<Rightarrow> nat \<Rightarrow> nat" where
  "likes_count st pk = length (filter (\<lambda>l. like_post l = pk) (likes st))"

text \<open>\<^verbatim>\<open>Like.objects.filter(post=post, user=user).exists()\<close>.\<close>

definition like_exists :: "store \<Rightarrow> nat \<Rightarrow> nat \<Rightarrow> bool" where
  "like_exists st pid uid = list_ex (\<lambda>l. like_post l = pid \<and> like_user l = uid) (likes st)"

subsection \<open>The geocoder\<close>

text \<open>
  The Nominatim service is outside the program: a call returns a location, returns
  nothing, or raises. \<open>geo_geocode\<close> is \<^verbatim>\<open>geolocator.geocode(name)\<close> and \<open>geo_reverse\<close>
  is \<^verbatim>\<open>geolocator.reverse((lat, lon), exactly_one=True)\<close>, of which the source reads
  \<^verbatim>\<open>.address\<close>.
\<close>

datatype 'a outcome = Returns "'a option" | Raises geopy_exc

record geocoder =
  geo_geocode :: "string \<Rightarrow> (coord \<times> coord) outcome"
  geo_reverse :: "coord \<times> coord \<Rightarrow> string outcome"

definition get_coordinates :: "geocoder \<Rightarrow> string \<Rightarrow> error + (coord option \<times> coord option)" where
  "get_coordinates g name =
     (case geo_geocode g name of
        Returns (Some (lat, lon)) \<Rightarrow> Inr (Some lat, Some lon)
      | Returns None \<Rightarrow> Inr (None, None)
      | Raises e \<Rightarrow>
          if isinstance_exc e GeocoderTimedOut \<or> isinstance_exc e GeocoderServiceError
          then Inr (None, None)
          else Inl (Uncaught e))"

text \<open>
  \<open>get_location_name\<close> returns the address, if any, and the list of the reverse
  lookups it sent (one: the call is made before anything can fail).
\<close>

definition get_location_name ::
  "geocoder \<Rightarrow> coord \<Rightarrow> coord \<Rightarrow> (error + string option) \<times> (coord \<times> coord) list" where
  "get_location_name g lat lon =
     (case geo_reverse g (lat, lon) of
        Returns (Some address) \<Rightarrow> (Inr (Some address), [(lat, lon)])
      | Returns None \<Rightarrow> (Inr None, [(lat, lon)])
      | Raises e \<Rightarrow>
          if isinstance_exc e GeocoderTimedOut \<or> isinstance_exc e GeocoderServiceError
          then (Inr None, [(lat, lon)])
          else (Inl (Uncaught e), [(lat, lon)]))"

text \<open>
  Python's truth of the values involved: a \<^verbatim>\<open>Decimal\<close> is false when it is \<^verbatim>\<open>None\<close>
  or zero (\<^verbatim>\<open>if self.latitude and self.longitude\<close> is the test \<open>lat \<noteq> 0 \<and> lon \<noteq> 0\<close>
  on two stored values), a string when it is \<^verbatim>\<open>None\<close> or empty.
\<close>

fun truthy_str :: "string option \<Rightarrow> bool" where
  "truthy_str None = False"
| "truthy_str (Some s) = (s \<noteq> [])"

text \<open>
  \<^verbatim>\<open>Post.location_address\<close>: the value and the reverse lookups sent while computing it.
\<close>

definition location_address :: "geocoder \<Rightarrow> post \<Rightarrow> (error + string) \<times> (coord \<times> coord) list" where
  "location_address g p =
     (let fallback = (case location_name p of None \<Rightarrow> [] | Some n \<Rightarrow> n) in
      case (latitude p, longitude p) of
        (Some lat, Some lon) \<Rightarrow>
          if lat \<noteq> 0 \<and> lon \<noteq> 0 then
            (case get_location_name g lat lon of
               (Inl e, sent) \<Rightarrow> (Inl e, sent)
             | (Inr (Some address), sent) \<Rightarrow>
                 if address \<noteq> [] then (Inr address, sent) else (Inr fallback, sent)
             | (Inr None, sent) \<Rightarrow> (Inr fallback, sent))
          else (Inr fallback, [])
      | _ \<Rightarrow> (Inr fallback, []))"


subsection \<open>Writing rows\<close>

text \<open>
  The geocoding step of \<^verbatim>\<open>Post.save\<close>, before \<^verbatim>\<open>super().save()\<close> writes the row.
\<close>

definition save_coordinates :: "geocoder \<Rightarrow> post \<Rightarrow> error + post" where
  "save_coordinates g p =
     (case location_name p of
        None \<Rightarrow> Inr p
      | Some name \<Rightarrow>
          if name \<noteq> [] \<and> (latitude p = None \<or> longitude p = None) then
            (case get_coordinates g name of
               Inl e \<Rightarrow> Inl e
             | Inr (lat, lon) \<Rightarrow>
                 if lat \<noteq> None \<and> lon \<noteq> None
                 then Inr (p\<lparr>latitude := lat, longitude := lon\<rparr>)
                 else Inr p)
          else Inr p)"

text \<open>
  \<^verbatim>\<open>Post.objects.create(**kwargs)\<close>: \<^verbatim>\<open>Post(**kwargs)\<close> raises \<open>TypeError\<close> for a
  keyword that is no field of the model (\<open>kw_image\<close> is the only such keyword the
  serializer can pass), then \<^verbatim>\<open>save()\<close> inserts the row under a fresh key.
\<close>

record post_kwargs =
  kw_author :: nat
  kw_text :: string
  kw_location_name :: "string option"
  kw_latitude :: "coord option"
  kw_longitude :: "coord option"
  kw_image :: "upload option"

definition Post_objects_create :: "geocoder \<Rightarrow> store \<Rightarrow> post_kwargs \<Rightarrow> (error + post) \<times> store" where
  "Post_objects_create g st kw =
     (if kw_image kw \<noteq> None then (Inl TypeError, st)
      else
        case save_coordinates g
               \<lparr>post_pk = next_post_pk st, post_author = kw_author kw, post_text = kw_text kw,
                location_name = kw_location_name kw, latitude = kw_latitude kw,
                longitude = kw_longitude kw\<rparr> of
          Inl e \<Rightarrow> (Inl e, st)
        | Inr p \<Rightarrow> (Inr p, st\<lparr>posts := posts st @ [p], next_post_pk := Suc (next_post_pk st)\<rparr>))"

text \<open>\<^verbatim>\<open>post.save()\<close> of a row that is already stored.\<close>

definition Post_save :: "geocoder \<Rightarrow> store \<Rightarrow> post \<Rightarrow> (error + post) \<times> store" where
  "Post_save g st p0 =
     (case save_coordinates g p0 of
        Inl e \<Rightarrow> (Inl e, st)
      | Inr p \<Rightarrow>
          (Inr p, st\<lparr>posts := map (\<lambda>q. if post_pk q = post_pk p then p else q) (posts st)\<rparr>))"

text \<open>
  The three child tables. Each has a foreign key to \<^verbatim>\<open>Post\<close>, which the database
  checks on every write, and \<^verbatim>\<open>Like\<close> has \<^verbatim>\<open>unique_together = ('post', 'user')\<close>.
\<close>

definition PostImage_objects_create ::
  "store \<Rightarrow> nat \<Rightarrow> upload \<Rightarrow> (error + post_image) \<times> store" where
  "PostImage_objects_create st pid img =
     (if get_post st pid = None then (Inl IntegrityError, st)
      else
        let i = \<lparr>image_pk = next_image_pk st, image_post = pid, image_file = img\<rparr>
        in (Inr i, st\<lparr>images := images st @ [i], next_image_pk := Suc (next_image_pk st)\<rparr>))"

definition PostImage_save :: "store \<Rightarrow> post_image \<Rightarrow> (error + post_image) \<times> store" where
  "PostImage_save st i =
     (if get_post st (image_post i) = None then (Inl IntegrityError, st)
      else (Inr i, st\<lparr>images := map (\<lambda>j. if image_pk j = image_pk i then i else j) (images st)\<rparr>))"

definition Like_objects_create :: "store \<Rightarrow> nat \<Rightarrow> nat \<Rightarrow> (error + like) \<times> store" where
  "Like_objects_create st pid uid =
     (if get_post st pid = None \<or> like_exists st pid uid then (Inl IntegrityError, st)
      else
        let l = \<lparr>like_pk = next_like_pk st, like_post = pid, like_user = uid\<rparr>
        in (Inr l, st\<lparr>likes := likes st @ [l], next_like_pk := Suc (next_like_pk st)\<rparr>))"

definition Like_save :: "store \<Rightarrow> like \<Rightarrow> (error + like) \<times> store" where
  "Like_save st l =
     (if get_post st (like_post l) = None
         \<or> list_ex (\<lambda>k. like_pk k \<noteq> like_pk l \<and> like_post k = like_post l
                          \<and> like_user k = like_user l) (likes st)
      then (Inl IntegrityError, st)
      else (Inr l, st\<lparr>likes := map (\<lambda>k. if like_pk k = like_pk l then l else k) (likes st)\<rparr>))"

definition Comment_objects_create ::
  "store \<Rightarrow> nat \<Rightarrow> nat \<Rightarrow> string \<Rightarrow> (error + comment) \<times> store" where
  "Comment_objects_create st pid uid txt =
     (if get_post st pid = None then (Inl IntegrityError, st)
      else
        let c = \<lparr>comment_pk = next_comment_pk st, comment_post = pid, comment_author = uid,
                 comment_text = txt\<rparr>
        in (Inr c, st\<lparr>comments := comments st @ [c],
                       next_comment_pk := Suc (next_comment_pk st)\<rparr>))"

definition Comment_save :: "store \<Rightarrow> comment \<Rightarrow> (error + comment) \<times> store" where
  "Comment_save st c =
     (if get_post st (comment_post c) = None then (Inl IntegrityError, st)
      else (Inr c, st\<lparr>comments :=
                        map (\<lambda>d. if comment_pk d = comment_pk c then c else d) (comments st)\<rparr>))"

subsection \<open>Deleting rows\<close>

text \<open>
  \<^verbatim>\<open>instance.delete()\<close>. The three foreign keys to \<^verbatim>\<open>Post\<close> are declared
  \<^verbatim>\<open>on_delete=models.CASCADE\<close>: deleting a post deletes the rows that point to it and
  then the post. The other models have no dependants.
\<close>

definition Post_delete :: "store \<Rightarrow> nat \<Rightarrow> store" where
  "Post_delete st pk =
     st\<lparr>images := filter (\<lambda>i. image_post i \<noteq> pk) (images st),
        likes := filter (\<lambda>l. like_post l \<noteq> pk) (likes st),
        comments := filter (\<lambda>c. comment_post c \<noteq> pk) (comments st),
        posts := filter (\<lambda>p. post_pk p \<noteq> pk) (posts st)\<rparr>"

fun Model_delete :: "store \<Rightarrow> obj \<Rightarrow> store" where
  "Model_delete st (PostObj p) = Post_delete st (post_pk p)"
| "Model_delete st (PostImageObj i) =
     st\<lparr>images := filter (\<lambda>j. image_pk j \<noteq> image_pk i) (images st)\<rparr>"
| "Model_delete st (LikeObj l) =
     st\<lparr>likes := filter (\<lambda>k. like_pk k \<noteq> like_pk l) (likes st)\<rparr>"
| "Model_delete st (CommentObj c) =
     st\<lparr>comments := filter (\<lambda>d. comment_pk d \<noteq> comment_pk c) (comments st)\<rparr>"

text \<open>
  \<^verbatim>\<open>PostAdmin.delete_model\<close> deletes the children itself, table by table, and then
  the post.
\<close>

definition delete_model :: "store \<Rightarrow> post \<Rightarrow> store" where
  "delete_model st p =
     (let st1 = st\<lparr>images := filter (\<lambda>i. image_post i \<noteq> post_pk p) (images st)\<rparr>;
          st2 = st1\<lparr>likes := filter (\<lambda>l. like_post l \<noteq> post_pk p) (likes st1)\<rparr>;
          st3 = st2\<lparr>comments := filter (\<lambda>c. comment_post c \<noteq> post_pk p) (comments st2)\<rparr>
      in Post_delete st3 (post_pk p))"

subsection \<open>The serializers\<close>

text \<open>
  The functions below receive \<^verbatim>\<open>validated_data\<close>: the payload after the serializer's
  field validation (a request that fails it ends with a \<open>ValidationError\<close> before any
  of this code runs). An optional field is \<open>None\<close> when the key is absent.
  \<open>post_data\<close> is the payload of \<^verbatim>\<open>PostSerializer\<close> on create; the list \<open>files\<close> that
  travels with it is \<^verbatim>\<open>request.FILES.getlist('images')\<close>.
\<close>

record post_data =
  d_text :: string
  d_location_name :: "string option"
  d_uploaded_images :: "upload list option"
  d_image :: "upload option"

definition has_images :: "post_data \<Rightarrow> upload list \<Rightarrow> bool" where
  "has_images d files =
     ((case d_uploaded_images d of None \<Rightarrow> False | Some imgs \<Rightarrow> imgs \<noteq> [])
      \<or> d_image d \<noteq> None \<or> files \<noteq> [])"

text \<open>\<^verbatim>\<open>PostSerializer.validate\<close>; \<open>instance\<close> is \<open>None\<close> on create.\<close>

definition validate :: "post option \<Rightarrow> post_data \<Rightarrow> upload list \<Rightarrow> error + post_data" where
  "validate instance d files =
     (if instance = None \<and> \<not> has_images d files
      then Inl (ValidationError AtLeastOneImage) else Inr d)"

text \<open>
  The geocoding block of \<^verbatim>\<open>PostSerializer.create\<close>: what \<^verbatim>\<open>validated_data\<close> holds
  for \<^verbatim>\<open>location_name\<close>, \<^verbatim>\<open>latitude\<close> and \<^verbatim>\<open>longitude\<close> after it. The name is
  popped first and put back only when a location was found; the only exception
  caught is \<^verbatim>\<open>GeocoderUnavailable\<close>.
\<close>

definition create_location ::
  "geocoder \<Rightarrow> string option \<Rightarrow> error + (string option \<times> coord option \<times> coord option)" where
  "create_location g name =
     (if truthy_str name then
        (case geo_geocode g (case name of Some n \<Rightarrow> n | None \<Rightarrow> []) of
           Returns (Some (lat, lon)) \<Rightarrow> Inr (name, Some lat, Some lon)
         | Returns None \<Rightarrow> Inr (None, None, None)
         | Raises e \<Rightarrow>
             if isinstance_exc e GeocoderUnavailable then Inr (None, None, None)
             else Inl (Uncaught e))
      else Inr (None, None, None))"

text \<open>The loop \<^verbatim>\<open>for img in uploaded_images: PostImage.objects.create(post=post, image=img)\<close>.\<close>

fun create_images :: "store \<Rightarrow> nat \<Rightarrow> upload list \<Rightarrow> (error + unit) \<times> store" where
  "create_images st pid [] = (Inr (), st)"
| "create_images st pid (img # imgs) =
     (case PostImage_objects_create st pid img of
        (Inl e, st1) \<Rightarrow> (Inl e, st1)
      | (Inr i, st1) \<Rightarrow> create_images st1 pid imgs)"

definition PostSerializer_create ::
  "geocoder \<Rightarrow> store \<Rightarrow> nat \<Rightarrow> post_data \<Rightarrow> upload list \<Rightarrow> (error + post) \<times> store" where
  "PostSerializer_create g st author d files =
     (if \<not> has_images d files then (Inl (ValidationError AtLeastOneImage), st)
      else
        case create_location g (d_location_name d) of
          Inl e \<Rightarrow> (Inl e, st)
        | Inr (name, lat, lon) \<Rightarrow>
            (case Post_objects_create g st
                    \<lparr>kw_author = author, kw_text = d_text d, kw_location_name = name,
                     kw_latitude = lat, kw_longitude = lon, kw_image = d_image d\<rparr> of
               (Inl e, st1) \<Rightarrow> (Inl e, st1)
             | (Inr p, st1) \<Rightarrow>
                 (case create_images st1 (post_pk p)
                         (case d_uploaded_images d of None \<Rightarrow> [] | Some imgs \<Rightarrow> imgs) of
                    (Inl e, st2) \<Rightarrow> (Inl e, st2)
                  | (Inr _, st2) \<Rightarrow>
                      (case d_image d of
                         None \<Rightarrow> (Inr p, st2)
                       | Some img \<Rightarrow>
                           (case PostImage_objects_create st2 (post_pk p) img of
                              (Inl e, st3) \<Rightarrow> (Inl e, st3)
                            | (Inr _, st3) \<Rightarrow> (Inr p, st3))))))"

text \<open>
  The updates are \<^verbatim>\<open>ModelSerializer.update\<close>: set every attribute that the payload
  names, then \<^verbatim>\<open>instance.save()\<close>. The write-only image fields of \<^verbatim>\<open>PostSerializer\<close>
  are no model fields and change no row on update.
\<close>

record post_patch =
  p_text :: "string option"
  p_location_name :: "string option"

definition PostSerializer_update ::
  "geocoder \<Rightarrow> post \<Rightarrow> post_patch \<Rightarrow> store \<Rightarrow> (error + post) \<times> store" where
  "PostSerializer_update g p d st =
     Post_save g st
       (p\<lparr>post_text := (case p_text d of None \<Rightarrow> post_text p | Some t \<Rightarrow> t),
          location_name :=
            (case p_location_name d of None \<Rightarrow> location_name p | Some n \<Rightarrow> Some n)\<rparr>)"

definition PostImageSerializer_update ::
  "post_image \<Rightarrow> upload option \<Rightarrow> store \<Rightarrow> (error + post_image) \<times> store" where
  "PostImageSerializer_update i img st =
     PostImage_save st (i\<lparr>image_file := (case img of None \<Rightarrow> image_file i | Some f \<Rightarrow> f)\<rparr>)"

definition LikeSerializer_update ::
  "like \<Rightarrow> nat option \<Rightarrow> store \<Rightarrow> (error + like) \<times> store" where
  "LikeSerializer_update l pid st =
     Like_save st (l\<lparr>like_post := (case pid of None \<Rightarrow> like_post l | Some q \<Rightarrow> q)\<rparr>)"

record comment_patch =
  c_text :: "string option"
  c_post :: "nat option"

definition CommentSerializer_update ::
  "comment \<Rightarrow> comment_patch \<Rightarrow> store \<Rightarrow> (error + comment) \<times> store" where
  "CommentSerializer_update c d st =
     Comment_save st
       (c\<lparr>comment_text := (case c_text d of None \<Rightarrow> comment_text c | Some t \<Rightarrow> t),
          comment_post := (case c_post d of None \<Rightarrow> comment_post c | Some q \<Rightarrow> q)\<rparr>)"

subsection \<open>The views\<close>

text \<open>
  \<^verbatim>\<open>AuthorCheckMixin\<close>. \<open>super_perform_update\<close> is \<^verbatim>\<open>super().perform_update(serializer)\<close>,
  that is \<^verbatim>\<open>serializer.save()\<close>; \<^verbatim>\<open>super().perform_destroy(instance)\<close> is
  \<^verbatim>\<open>instance.delete()\<close>.
\<close>

definition AuthorCheckMixin_perform_update ::
  "user option \<Rightarrow> obj \<Rightarrow> (store \<Rightarrow> (error + 'a) \<times> store) \<Rightarrow> store \<Rightarrow> (error + 'a) \<times> store" where
  "AuthorCheckMixin_perform_update u instance super_perform_update st =
     (if \<not> user_eq (author_or_user instance) u
      then (Inl (ValidationError OnlyOwnObjectsChange), st)
      else super_perform_update st)"

definition AuthorCheckMixin_perform_destroy ::
  "user option \<Rightarrow> obj \<Rightarrow> store \<Rightarrow> (error + unit) \<times> store" where
  "AuthorCheckMixin_perform_destroy u instance st =
     (if \<not> user_eq (author_or_user instance) u
      then (Inl (ValidationError OnlyOwnObjectsDelete), st)
      else (Inr (), Model_delete st instance))"

definition PostList_permission_classes :: "permission_class list" where
  "PostList_permission_classes = [IsAuthenticatedOrReadOnly]"

definition PostDetail_permission_classes :: "permission_class list" where
  "PostDetail_permission_classes = [IsAuthenticatedOrReadOnly, IsAuthorOrReadOnly]"

definition PostImageList_permission_classes :: "permission_class list" where
  "PostImageList_permission_classes = [IsAuthenticatedOrReadOnly]"

definition PostImageDetail_permission_classes :: "permission_class list" where
  "PostImageDetail_permission_classes = [IsAuthenticatedOrReadOnly, IsAuthorOrReadOnly]"

definition LikeList_permission_classes :: "permission_class list" where
  "LikeList_permission_classes = [IsAuthenticated]"

definition LikeDetail_permission_classes :: "permission_class list" where
  "LikeDetail_permission_classes = [IsAuthenticated]"

definition CommentList_permission_classes :: "permission_class list" where
  "CommentList_permission_classes = [IsAuthenticatedOrReadOnly]"

definition CommentDetail_permission_classes :: "permission_class list" where
  "CommentDetail_permission_classes = [IsAuthenticatedOrReadOnly, IsAuthorOrReadOnly]"

text \<open>
  \<open>update_method partial\<close> is the method of an update request: \<^verbatim>\<open>PATCH\<close> for a
  partial update, \<^verbatim>\<open>PUT\<close> otherwise.
\<close>

definition update_method :: "bool \<Rightarrow> http_method" where
  "update_method partial = (if partial then PATCH else PUT)"

paragraph \<open>Posts\<close>

text \<open>
  \<^verbatim>\<open>POST /api/posts/\<close>: \<^verbatim>\<open>check_permissions\<close>, the serializer's \<^verbatim>\<open>validate\<close>, then
  \<^verbatim>\<open>PostList.perform_create\<close>, which is \<^verbatim>\<open>serializer.save(author=request.user)\<close>.
  The permission check lets no anonymous \<^verbatim>\<open>POST\<close> through, so the last branch is
  never taken.
\<close>

definition PostList_create ::
  "geocoder \<Rightarrow> user option \<Rightarrow> post_data \<Rightarrow> upload list \<Rightarrow> store \<Rightarrow> (error + post) \<times> store" where
  "PostList_create g u d files st =
     (case check_permissions PostList_permission_classes POST u of
        Some e \<Rightarrow> (Inl e, st)
      | None \<Rightarrow>
          (case validate None d files of
             Inl e \<Rightarrow> (Inl e, st)
           | Inr d1 \<Rightarrow>
               (case u of
                  Some usr \<Rightarrow> PostSerializer_create g st (user_pk usr) d1 files
                | None \<Rightarrow> (Inl NotAuthenticated, st))))"

definition PostDetail_retrieve :: "user option \<Rightarrow> nat \<Rightarrow> store \<Rightarrow> error + post" where
  "PostDetail_retrieve u pk st =
     initial_get_object PostDetail_permission_classes GET u PostObj (get_post st pk)"

definition PostDetail_update ::
  "geocoder \<Rightarrow> bool \<Rightarrow> user option \<Rightarrow> nat \<Rightarrow> post_patch \<Rightarrow> store \<Rightarrow> (error + post) \<times> store" where
  "PostDetail_update g partial u pk d st =
     (case initial_get_object PostDetail_permission_classes (update_method partial) u PostObj
             (get_post st pk) of
        Inl e \<Rightarrow> (Inl e, st)
      | Inr instance \<Rightarrow>
          AuthorCheckMixin_perform_update u (PostObj instance) (PostSerializer_update g instance d) st)"

definition PostDetail_destroy :: "user option \<Rightarrow> nat \<Rightarrow> store \<Rightarrow> (error + unit) \<times> store" where
  "PostDetail_destroy u pk st =
     (case initial_get_object PostDetail_permission_classes DELETE u PostObj (get_post st pk) of
        Inl e \<Rightarrow> (Inl e, st)
      | Inr instance \<Rightarrow> AuthorCheckMixin_perform_destroy u (PostObj instance) st)"

paragraph \<open>Images\<close>

text \<open>
  \<^verbatim>\<open>PostImageList.perform_create\<close>: \<^verbatim>\<open>if not post_id\<close> rejects the key 0 and nothing
  else; the row is then saved with \<^verbatim>\<open>post_id\<close> as given.
\<close>

definition PostImageList_perform_create ::
  "nat \<Rightarrow> upload \<Rightarrow> store \<Rightarrow> (error + post_image) \<times> store" where
  "PostImageList_perform_create post_id img st =
     (if post_id = 0 then (Inl (ValidationError PostIdRequired), st)
      else PostImage_objects_create st post_id img)"

definition PostImageList_create ::
  "user option \<Rightarrow> nat \<Rightarrow> upload \<Rightarrow> store \<Rightarrow> (error + post_image) \<times> store" where
  "PostImageList_create u post_id img st =
     (case check_permissions PostImageList_permission_classes POST u of
        Some e \<Rightarrow> (Inl e, st)
      | None \<Rightarrow> PostImageList_perform_create post_id img st)"

definition PostImageDetail_retrieve :: "user option \<Rightarrow> nat \<Rightarrow> store \<Rightarrow> error + post_image" where
  "PostImageDetail_retrieve u pk st =
     initial_get_object PostImageDetail_permission_classes GET u PostImageObj (get_image st pk)"

definition PostImageDetail_update ::
  "bool \<Rightarrow> user option \<Rightarrow> nat \<Rightarrow> upload option \<Rightarrow> store \<Rightarrow> (error + post_image) \<times> store" where
  "PostImageDetail_update partial u pk d st =
     (case initial_get_object PostImageDetail_permission_classes (update_method partial) u PostImageObj
             (get_image st pk) of
        Inl e \<Rightarrow> (Inl e, st)
      | Inr instance \<Rightarrow>
          AuthorCheckMixin_perform_update u (PostImageObj instance) (PostImageSerializer_update instance d) st)"

definition PostImageDetail_destroy :: "user option \<Rightarrow> nat \<Rightarrow> store \<Rightarrow> (error + unit) \<times> store" where
  "PostImageDetail_destroy u pk st =
     (case initial_get_object PostImageDetail_permission_classes DELETE u PostImageObj (get_image st pk) of
        Inl e \<Rightarrow> (Inl e, st)
      | Inr instance \<Rightarrow> AuthorCheckMixin_perform_destroy u (PostImageObj instance) st)"

paragraph \<open>Likes\<close>

text \<open>
  \<^verbatim>\<open>LikeList.perform_create\<close>: \<^verbatim>\<open>get_object_or_404(Post, pk=post_id)\<close>, the
  \<^verbatim>\<open>exists()\<close> test, then \<^verbatim>\<open>serializer.save(user=request.user, post=post)\<close>.
\<close>

definition LikeList_perform_create :: "user \<Rightarrow> nat \<Rightarrow> store \<Rightarrow> (error + like) \<times> store" where
  "LikeList_perform_create usr post_id st =
     (case get_post st post_id of
        None \<Rightarrow> (Inl Http404, st)
      | Some p \<Rightarrow>
          if like_exists st (post_pk p) (user_pk usr)
          then (Inl (ValidationError AlreadyLiked), st)
          else Like_objects_create st (post_pk p) (user_pk usr))"

definition LikeList_create :: "user option \<Rightarrow> nat \<Rightarrow> store \<Rightarrow> (error + like) \<times> store" where
  "LikeList_create u post_id st =
     (case check_permissions LikeList_permission_classes POST u of
        Some e \<Rightarrow> (Inl e, st)
      | None \<Rightarrow>
          (case u of
             Some usr \<Rightarrow> LikeList_perform_create usr post_id st
           | None \<Rightarrow> (Inl NotAuthenticated, st)))"

definition LikeDetail_retrieve :: "user option \<Rightarrow> nat \<Rightarrow> store \<Rightarrow> error + like" where
  "LikeDetail_retrieve u pk st =
     initial_get_object LikeDetail_permission_classes GET u LikeObj (get_like st pk)"

text \<open>
  \<^verbatim>\<open>LikeDetail.perform_update\<close> and \<^verbatim>\<open>perform_destroy\<close> compare
  \<^verbatim>\<open>instance.user\<close> with \<^verbatim>\<open>request.user\<close> themselves.
\<close>

definition LikeDetail_perform_update ::
  "user option \<Rightarrow> like \<Rightarrow> nat option \<Rightarrow> store \<Rightarrow> (error + like) \<times> store" where
  "LikeDetail_perform_update u instance pid st =
     (if \<not> user_eq (Some (like_user instance)) u
      then (Inl (ValidationError OnlyOwnLikesChange), st)
      else LikeSerializer_update instance pid st)"

definition LikeDetail_perform_destroy ::
  "user option \<Rightarrow> like \<Rightarrow> store \<Rightarrow> (error + unit) \<times> store" where
  "LikeDetail_perform_destroy u instance st =
     (if \<not> user_eq (Some (like_user instance)) u
      then (Inl (ValidationError OnlyOwnLikesDelete), st)
      else (Inr (), Model_delete st (LikeObj instance)))"

definition LikeDetail_update ::
  "bool \<Rightarrow> user option \<Rightarrow> nat \<Rightarrow> nat option \<Rightarrow> store \<Rightarrow> (error + like) \<times> store" where
  "LikeDetail_update partial u pk pid st =
     (case initial_get_object LikeDetail_permission_classes (update_method partial) u LikeObj
             (get_like st pk) of
        Inl e \<Rightarrow> (Inl e, st)
      | Inr instance \<Rightarrow> LikeDetail_perform_update u instance pid st)"

definition LikeDetail_destroy :: "user option \<Rightarrow> nat \<Rightarrow> store \<Rightarrow> (error + unit) \<times> store" where
  "LikeDetail_destroy u pk st =
     (case initial_get_object LikeDetail_permission_classes DELETE u LikeObj (get_like st pk) of
        Inl e \<Rightarrow> (Inl e, st)
      | Inr instance \<Rightarrow> LikeDetail_perform_destroy u instance st)"

paragraph \<open>Comments\<close>

text \<open>
  \<^verbatim>\<open>CommentList.perform_create\<close>: \<^verbatim>\<open>get_object_or_404(Post, pk=post_id)\<close>, then
  \<^verbatim>\<open>serializer.save(author=request.user, post=post)\<close>.
\<close>

definition CommentList_perform_create ::
  "user \<Rightarrow> nat \<Rightarrow> string \<Rightarrow> store \<Rightarrow> (error + comment) \<times> store" where
  "CommentList_perform_create usr post_id txt st =
     (case get_post st post_id of
        None \<Rightarrow> (Inl Http404, st)
      | Some p \<Rightarrow> Comment_objects_create st (post_pk p) (user_pk usr) txt)"

definition CommentList_create ::
  "user option \<Rightarrow> nat \<Rightarrow> string \<Rightarrow> store \<Rightarrow> (error + comment) \<times> store" where
  "CommentList_create u post_id txt st =
     (case check_permissions CommentList_permission_classes POST u of
        Some e \<Rightarrow> (Inl e, st)
      | None \<Rightarrow>
          (case u of
             Some usr \<Rightarrow> CommentList_perform_create usr post_id txt st
           | None \<Rightarrow> (Inl NotAuthenticated, st)))"

definition CommentDetail_retrieve :: "user option \<Rightarrow> nat \<Rightarrow> store \<Rightarrow> error + comment" where
  "CommentDetail_retrieve u pk st =
     initial_get_object CommentDetail_permission_classes GET u CommentObj (get_comment st pk)"

definition CommentDetail_update ::
  "bool \<Rightarrow> user option \<Rightarrow> nat \<Rightarrow> comment_patch \<Rightarrow> store \<Rightarrow> (error + comment) \<times> store" where
  "CommentDetail_update partial u pk d st =
     (case initial_get_object CommentDetail_permission_classes (update_method partial) u CommentObj
             (get_comment st pk) of
        Inl e \<Rightarrow> (Inl e, st)
      | Inr instance \<Rightarrow>
          AuthorCheckMixin_perform_update u (CommentObj instance) (CommentSerializer_update instance d) st)"

definition CommentDetail_destroy :: "user option \<Rightarrow> nat \<Rightarrow> store \<Rightarrow> (error + unit) \<times> store" where
  "CommentDetail_destroy u pk st =
     (case initial_get_object CommentDetail_permission_classes DELETE u CommentObj (get_comment st pk) of
        Inl e \<Rightarrow> (Inl e, st)
      | Inr instance \<Rightarrow> AuthorCheckMixin_perform_destroy u (CommentObj instance) st)"

subsection \<open>Requests and runs\<close>

text \<open>
  The writing requests of the REST interface, and the store after a sequence of them
  (whatever each of them answered).
\<close>

datatype api_call =
    CreatePost "user option" post_data "upload list"
  | UpdatePost bool "user option" nat post_patch
  | DestroyPost "user option" nat
  | CreateImage "user option" nat upload
  | UpdateImage bool "user option" nat "upload option"
  | DestroyImage "user option" nat
  | CreateLike "user option" nat
  | UpdateLike bool "user option" nat "nat option"
  | DestroyLike "user option" nat
  | CreateComment "user option" nat string
  | UpdateComment bool "user option" nat comment_patch
  | DestroyComment "user option" nat

fun handle :: "geocoder \<Rightarrow> api_call \<Rightarrow> store \<Rightarrow> store" where
  "handle g (CreatePost u d files) st = snd (PostList_create g u d files st)"
| "handle g (UpdatePost partial u pk d) st = snd (PostDetail_update g partial u pk d st)"
| "handle g (DestroyPost u pk) st = snd (PostDetail_destroy u pk st)"
| "handle g (CreateImage u post_id img) st = snd (PostImageList_create u post_id img st)"
| "handle g (UpdateImage partial u pk img) st = snd (PostImageDetail_update partial u pk img st)"
| "handle g (DestroyImage u pk) st = snd (PostImageDetail_destroy u pk st)"
| "handle g (CreateLike u post_id) st = snd (LikeList_create u post_id st)"
| "handle g (UpdateLike partial u pk pid) st = snd (LikeDetail_update partial u pk pid st)"
| "handle g (DestroyLike u pk) st = snd (LikeDetail_destroy u pk st)"
| "handle g (CreateComment u post_id txt) st = snd (CommentList_create u post_id txt st)"
| "handle g (UpdateComment partial u pk d) st = snd (CommentDetail_update partial u pk d st)"
| "handle g (DestroyComment u pk) st = snd (CommentDetail_destroy u pk st)"

fun run :: "geocoder \<Rightarrow> api_call list \<Rightarrow> store \<Rightarrow> store" where
  "run g [] st = st"
| "run g (c # cs) st = run g cs (handle g c st)"

subsection \<open>Invariants of the store\<close>

text \<open>
  \<open>unique_likes\<close>: no two \<^verbatim>\<open>Like\<close> rows have the same post and user.
  \<open>keys_fresh\<close>: the primary keys of a table are pairwise different and below the
  table's next key.
\<close>

definition unique_likes :: "store \<Rightarrow> bool" where
  "unique_likes st = distinct (map (\<lambda>l. (like_post l, like_user l)) (likes st))"

definition keys_fresh :: "('r \<Rightarrow> nat) \<Rightarrow> 'r list \<Rightarrow> nat \<Rightarrow> bool" where
  "keys_fresh pk rows next_pk = (distinct (map pk rows) \<and> list_all (\<lambda>r. pk r < next_pk) rows)"

definition store_inv :: "store \<Rightarrow> bool" where
  "store_inv st =
     (keys_fresh post_pk (posts st) (next_post_pk st)
      \<and> keys_fresh image_pk (images st) (next_image_pk st)
      \<and> keys_fresh like_pk (likes st) (next_like_pk st)
      \<and> keys_fresh comment_pk (comments st) (next_comment_pk st)
      \<and> unique_likes st)"

subsection \<open>Example data\<close>

definition user_a :: user where
  "user_a = \<lparr>user_pk = 1, is_superuser = False\<rparr>"

definition user_b :: user where
  "user_b = \<lparr>user_pk = 2, is_superuser = False\<rparr>"


definition superuser :: user where
  "superuser = \<lparr>user_pk = 9, is_superuser = True\<rparr>"

text \<open>
  Three behaviours of the geocoding service: it finds nothing, it finds Paris, it
  times out.
\<close>

definition geo_none :: geocoder where
  "geo_none = \<lparr>geo_geocode = (\<lambda>name. Returns None), geo_reverse = (\<lambda>c. Returns None)\<rparr>"

definition geo_paris :: geocoder where
  "geo_paris =
     \<lparr>geo_geocode = (\<lambda>name. Returns (Some (48856600, 2352200))),
      geo_reverse = (\<lambda>c. Returns (Some ''Paris, France''))\<rparr>"

definition geo_timeout :: geocoder where
  "geo_timeout =
     \<lparr>geo_geocode = (\<lambda>name. Raises GeocoderTimedOut),
      geo_reverse = (\<lambda>c. Raises GeocoderTimedOut)\<rparr>"

text \<open>
  \<open>store1\<close>: user A's post 1 with one image, liked and commented by user B.
  \<open>store2\<close>: two posts of user A, both liked by user B.
\<close>

definition post1 :: post where
  "post1 =
     \<lparr>post_pk = 1, post_author = 1, post_text = ''hello'', location_name = None,
      latitude = None, longitude = None\<rparr>"

definition image1 :: post_image where
  "image1 = \<lparr>image_pk = 1, image_post = 1, image_file = ''a.png''\<rparr>"

definition like1 :: like where
  "like1 = \<lparr>like_pk = 1, like_post = 1, like_user = 2\<rparr>"

definition comment1 :: comment where
  "comment1 = \<lparr>comment_pk = 1, comment_post = 1, comment_author = 2, comment_text = ''nice''\<rparr>"

definition store1 :: store where
  "store1 =
     \<lparr>posts = [post1], images = [image1], likes = [like1], comments = [comment1],
      next_post_pk = 2, next_image_pk = 2, next_like_pk = 2, next_comment_pk = 2\<rparr>"


text \<open>A post on the equator: latitude 0, longitude 10.5.\<close>

definition post_equator :: post where
  "post_equator =
     \<lparr>post_pk = 5, post_author = 1, post_text = ''line'', location_name = Some ''Equator'',
      latitude = Some 0, longitude = Some 10500000\<rparr>"

text \<open>
  Payloads for \<^verbatim>\<open>POST /api/posts/\<close>: one file in \<^verbatim>\<open>uploaded_images\<close>; one file in
  the \<^verbatim>\<open>image\<close> field; no file at all; one file and a location name.
\<close>

definition data_uploaded :: post_data where
  "data_uploaded =
     \<lparr>d_text = ''hello'', d_location_name = None, d_uploaded_images = Some [''a.png''],
      d_image = None\<rparr>"

definition data_image :: post_data where
  "data_image =
     \<lparr>d_text = ''hello'', d_location_name = None, d_uploaded_images = None,
      d_image = Some ''a.png''\<rparr>"

definition data_no_image :: post_data where
  "data_no_image =
     \<lparr>d_text = ''hello'', d_location_name = None, d_uploaded_images = None, d_image = None\<rparr>"

definition data_located :: post_data where
  "data_located =
     \<lparr>d_text = ''hello'', d_location_name = Some ''Paris'',
      d_uploaded_images = Some [''a.png''], d_image = None\<rparr>"

section \<open>Properties\<close>

subsection \<open>Who may change what\<close>

lemma has_perm_authenticated: "has_perm c m (Some u)"
  by (cases c) simp_all

lemma check_permissions_authenticated: "check_permissions classes m (Some u) = None"
  by (simp add: check_permissions_def list_all_iff has_perm_authenticated)







text \<open>
  C5, as the code has it. In the admin, \<^verbatim>\<open>PostAdmin\<close> lets a superuser change and
  delete every post. The REST permission \<^verbatim>\<open>IsAuthorOrReadOnly\<close> has no rule for
  superusers: whoever the user is, it allows the safe methods and, for the others,
  the owner of the object and nobody else.
\<close>

theorem superuser_override_admin_only:
  "(is_superuser u \<longrightarrow> has_change_permission u ob \<and> has_delete_permission u ob)
   \<and> has_object_permission m (Some u) x
       = (m \<in> set SAFE_METHODS \<or> author_or_user x = Some (user_pk u))"
  by (cases "author_or_user x")
     (auto simp: has_change_permission_def has_delete_permission_def has_object_permission_def
           split: option.splits)

theorem superuser_override_admin_only_witness:
  "is_superuser superuser
   \<and> has_change_permission superuser (Some post1)
   \<and> has_delete_permission superuser (Some post1)
   \<and> has_object_permission GET (Some superuser) (PostObj post1)
   \<and> \<not> has_object_permission PUT (Some superuser) (PostObj post1)"
  using superuser_override_admin_only [of superuser "Some post1" GET "PostObj post1"]
    superuser_override_admin_only [of superuser "Some post1" PUT "PostObj post1"]
  by (simp add: superuser_def post1_def SAFE_METHODS_def author_or_user_def)

text \<open>
  C5 as stated fails in the REST interface: a superuser who is not the author of
  post 1 is refused when deleting or changing it, and the store stays as it was.
\<close>

theorem superuser_denied_by_rest_policy:
  "is_superuser superuser
   \<and> \<not> has_object_permission DELETE (Some superuser) (PostObj post1)
   \<and> PostDetail_destroy (Some superuser) 1 store1 = (Inl PermissionDenied, store1)
   \<and> PostDetail_update geo_none True (Some superuser) 1
         \<lparr>p_text = Some ''edited'', p_location_name = None\<rparr> store1
       = (Inl PermissionDenied, store1)
   \<and> CommentDetail_destroy (Some superuser) 1 store1 = (Inl PermissionDenied, store1)"
  by code_simp

subsection \<open>The invariants hold in every reachable store\<close>

lemma keys_fresh_append:
  "keys_fresh pk rows n \<Longrightarrow> pk r = n \<Longrightarrow> keys_fresh pk (rows @ [r]) (Suc n)"
  by (fastforce simp: keys_fresh_def list_all_iff)

lemma keys_fresh_filter: "keys_fresh pk rows n \<Longrightarrow> keys_fresh pk (filter P rows) n"
  by (simp add: keys_fresh_def list_all_iff distinct_map_filter)

lemma map_pk_replace: "map pk (map (\<lambda>j. if pk j = pk r then r else j) rows) = map pk rows"
  by (induction rows) auto

lemma list_all_pk_replace:
  "list_all (\<lambda>x. pk x < n) (map (\<lambda>j. if pk j = pk r then r else j) rows)
     = list_all (\<lambda>x. pk x < n) rows"
  by (induction rows) auto

lemma keys_fresh_replace:
  "keys_fresh pk rows n \<Longrightarrow> keys_fresh pk (map (\<lambda>j. if pk j = pk r then r else j) rows) n"
  by (simp only: keys_fresh_def map_pk_replace list_all_pk_replace)

lemma replace_absent:
  "\<forall>j\<in>set rows. pk j \<noteq> pk r \<Longrightarrow> map (\<lambda>j. if pk j = pk r then r else j) rows = rows"
  by (induction rows) auto

lemma distinct_key_replace:
  assumes "distinct (map k rows)" and "distinct (map pk rows)"
    and "\<forall>j\<in>set rows. pk j \<noteq> pk r \<longrightarrow> k j \<noteq> k r"
  shows "distinct (map k (map (\<lambda>j. if pk j = pk r then r else j) rows))"
  using assms
proof (induction rows)
  case Nil
  then show ?case by simp
next
  case (Cons a rows)
  show ?case
  proof (cases "pk a = pk r")
    case True
    from Cons.prems(2) True have "pk r \<notin> pk ` set rows" by simp
    then have "\<forall>j\<in>set rows. pk j \<noteq> pk r" by (metis imageI)
    then have "map (\<lambda>j. if pk j = pk r then r else j) rows = rows"
      and "\<forall>j\<in>set rows. k j \<noteq> k r"
      using Cons.prems by (auto simp: replace_absent)
    with True Cons.prems show ?thesis by auto
  next
    case False
    with Cons show ?thesis by (auto split: if_splits)
  qed
qed


lemma save_coordinates_pk: "save_coordinates g p = Inr q \<Longrightarrow> post_pk q = post_pk p"
  by (auto simp: save_coordinates_def split: option.splits if_splits sum.splits prod.splits)

lemma Post_objects_create_inv:
  "store_inv st \<Longrightarrow> store_inv (snd (Post_objects_create g st kw))"
  by (auto simp: Post_objects_create_def store_inv_def unique_likes_def
      dest: save_coordinates_pk intro!: keys_fresh_append split: sum.splits)

lemma Post_save_inv: "store_inv st \<Longrightarrow> store_inv (snd (Post_save g st p))"
  by (auto simp: Post_save_def store_inv_def unique_likes_def
      intro!: keys_fresh_replace split: sum.splits)

lemma PostImage_objects_create_inv:
  "store_inv st \<Longrightarrow> store_inv (snd (PostImage_objects_create st pid img))"
  by (auto simp: PostImage_objects_create_def store_inv_def unique_likes_def Let_def
      intro!: keys_fresh_append)

lemma PostImage_save_inv: "store_inv st \<Longrightarrow> store_inv (snd (PostImage_save st i))"
  by (auto simp: PostImage_save_def store_inv_def unique_likes_def intro!: keys_fresh_replace)

lemma Comment_objects_create_inv:
  "store_inv st \<Longrightarrow> store_inv (snd (Comment_objects_create st pid uid txt))"
  by (auto simp: Comment_objects_create_def store_inv_def unique_likes_def Let_def
      intro!: keys_fresh_append)

lemma Comment_save_inv: "store_inv st \<Longrightarrow> store_inv (snd (Comment_save st c))"
  by (auto simp: Comment_save_def store_inv_def unique_likes_def intro!: keys_fresh_replace)

lemma Like_objects_create_inv:
  "store_inv st \<Longrightarrow> store_inv (snd (Like_objects_create st pid uid))"
  by (auto simp: Like_objects_create_def store_inv_def unique_likes_def Let_def like_exists_def
      list_ex_iff intro!: keys_fresh_append)

lemma Like_save_inv:
  assumes "store_inv st"
  shows "store_inv (snd (Like_save st l))"
proof (cases "fst (Like_save st l)")
  case (Inl e)
  then have "snd (Like_save st l) = st"
    by (auto simp: Like_save_def split: if_splits)
  with assms show ?thesis by simp
next
  case (Inr r)
  then have ok: "\<forall>j\<in>set (likes st). like_pk j \<noteq> like_pk l
      \<longrightarrow> (like_post j, like_user j) \<noteq> (like_post l, like_user l)"
    and st': "snd (Like_save st l)
       = st\<lparr>likes := map (\<lambda>k. if like_pk k = like_pk l then l else k) (likes st)\<rparr>"
    by (auto simp: Like_save_def list_ex_iff split: if_splits)
  from assms have "distinct (map (\<lambda>l. (like_post l, like_user l)) (likes st))"
    and "distinct (map like_pk (likes st))"
    by (simp_all add: store_inv_def unique_likes_def keys_fresh_def)
  then have "distinct (map (\<lambda>l. (like_post l, like_user l))
      (map (\<lambda>k. if like_pk k = like_pk l then l else k) (likes st)))"
    using ok by (rule distinct_key_replace)
  with assms show ?thesis
    by (simp add: st' store_inv_def unique_likes_def keys_fresh_replace)
qed

lemma Model_delete_inv: "store_inv st \<Longrightarrow> store_inv (Model_delete st ob)"
  by (cases ob)
     (auto simp: store_inv_def unique_likes_def Post_delete_def distinct_map_filter
       intro!: keys_fresh_filter)

lemma create_images_inv: "store_inv st \<Longrightarrow> store_inv (snd (create_images st pid imgs))"
proof (induction imgs arbitrary: st)
  case Nil
  then show ?case by simp
next
  case (Cons img imgs)
  from Cons.prems have "store_inv (snd (PostImage_objects_create st pid img))"
    by (rule PostImage_objects_create_inv)
  then show ?case
    using Cons.IH by (auto split: prod.splits sum.splits)
qed


lemma PostSerializer_create_inv:
  assumes "store_inv st"
  shows "store_inv (snd (PostSerializer_create g st author d files))"
proof -
  have 1: "store_inv (snd (Post_objects_create g st kw))" for kw
    using assms by (rule Post_objects_create_inv)
  have 2: "store_inv st1 \<Longrightarrow> store_inv (snd (create_images st1 pid imgs))" for st1 pid imgs
    by (rule create_images_inv)
  have 3: "store_inv st2 \<Longrightarrow> store_inv (snd (PostImage_objects_create st2 pid img))"
    for st2 pid img
    by (rule PostImage_objects_create_inv)
  show ?thesis
    unfolding PostSerializer_create_def
    using assms
    by (auto split: sum.splits prod.splits option.splits
        dest!: arg_cong [where f = snd] simp: 1 2 3)
qed


lemma AuthorCheckMixin_perform_update_inv:
  assumes "store_inv st" and "\<And>s. store_inv s \<Longrightarrow> store_inv (snd (f s))"
  shows "store_inv (snd (AuthorCheckMixin_perform_update u ob f st))"
  using assms by (simp add: AuthorCheckMixin_perform_update_def)

lemma AuthorCheckMixin_perform_destroy_inv:
  "store_inv st \<Longrightarrow> store_inv (snd (AuthorCheckMixin_perform_destroy u ob st))"
  by (simp add: AuthorCheckMixin_perform_destroy_def Model_delete_inv)

lemma handle_inv: "store_inv st \<Longrightarrow> store_inv (handle g c st)"
proof (cases c)
  case (CreatePost u d files)
  then show "store_inv st \<Longrightarrow> ?thesis"
    by (auto simp: PostList_create_def PostSerializer_create_inv validate_def
        split: option.splits sum.splits if_splits)
next
  case (UpdatePost partial u pk d)
  then show "store_inv st \<Longrightarrow> ?thesis"
    by (auto simp: PostDetail_update_def PostSerializer_update_def Post_save_inv
        AuthorCheckMixin_perform_update_inv split: sum.splits)
next
  case (DestroyPost u pk)
  then show "store_inv st \<Longrightarrow> ?thesis"
    by (auto simp: PostDetail_destroy_def AuthorCheckMixin_perform_destroy_inv split: sum.splits)
next
  case (CreateImage u post_id img)
  then show "store_inv st \<Longrightarrow> ?thesis"
    by (auto simp: PostImageList_create_def PostImageList_perform_create_def
        PostImage_objects_create_inv split: option.splits)
next
  case (UpdateImage partial u pk img)
  then show "store_inv st \<Longrightarrow> ?thesis"
    by (auto simp: PostImageDetail_update_def PostImageSerializer_update_def PostImage_save_inv
        AuthorCheckMixin_perform_update_inv split: sum.splits)
next
  case (DestroyImage u pk)
  then show "store_inv st \<Longrightarrow> ?thesis"
    by (auto simp: PostImageDetail_destroy_def AuthorCheckMixin_perform_destroy_inv
        split: sum.splits)
next
  case (CreateLike u post_id)
  then show "store_inv st \<Longrightarrow> ?thesis"
    by (auto simp: LikeList_create_def LikeList_perform_create_def Like_objects_create_inv
        split: option.splits)
next
  case (UpdateLike partial u pk pid)
  then show "store_inv st \<Longrightarrow> ?thesis"
    by (auto simp: LikeDetail_update_def LikeDetail_perform_update_def LikeSerializer_update_def
        Like_save_inv split: sum.splits)
next
  case (DestroyLike u pk)
  then show "store_inv st \<Longrightarrow> ?thesis"
    using Model_delete_inv [of st "LikeObj l" for l]
    by (auto simp: LikeDetail_destroy_def LikeDetail_perform_destroy_def split: sum.splits)
next
  case (CreateComment u post_id body)
  then show "store_inv st \<Longrightarrow> ?thesis"
    by (auto simp: CommentList_create_def CommentList_perform_create_def
        Comment_objects_create_inv split: option.splits)
next
  case (UpdateComment partial u pk d)
  then show "store_inv st \<Longrightarrow> ?thesis"
    by (auto simp: CommentDetail_update_def CommentSerializer_update_def Comment_save_inv
        AuthorCheckMixin_perform_update_inv split: sum.splits)
next
  case (DestroyComment u pk)
  then show "store_inv st \<Longrightarrow> ?thesis"
    by (auto simp: CommentDetail_destroy_def AuthorCheckMixin_perform_destroy_inv
        split: sum.splits)
qed

lemma run_inv: "store_inv st \<Longrightarrow> store_inv (run g cs st)"
  by (induction cs arbitrary: st) (simp_all add: handle_inv)

lemma empty_store_inv: "store_inv empty_store"
  by (simp add: store_inv_def empty_store_def keys_fresh_def unique_likes_def)

lemma reachable_inv: "store_inv (run g cs empty_store)"
  by (rule run_inv [OF empty_store_inv])

subsection \<open>One like per post and user\<close>

lemma distinct_key_count:
  "distinct (map k rows) \<Longrightarrow> length (filter (\<lambda>r. k r = v) rows) \<le> Suc 0"
proof (induction rows)
  case Nil
  then show ?case by simp
next
  case (Cons a rows)
  show ?case
  proof (cases "k a = v")
    case True
    with Cons.prems have "\<forall>r\<in>set rows. k r \<noteq> v" by (metis distinct.simps(2) imageI list.simps(9) set_map)
    then have "filter (\<lambda>r. k r = v) rows = []" by (simp add: filter_empty_conv)
    with True show ?thesis by simp
  next
    case False
    with Cons show ?thesis by simp
  qed
qed

lemma get_post_pk: "get_post st pk = Some p \<Longrightarrow> post_pk p = pk"
  by (auto simp: get_post_def find_Some_iff)


lemma LikeList_create_duplicate:
  assumes "get_post st post_id \<noteq> None" and "like_exists st post_id (user_pk u)"
  shows "LikeList_create (Some u) post_id st = (Inl (ValidationError AlreadyLiked), st)"
proof -
  from assms(1) obtain p where p: "get_post st post_id = Some p" by auto
  then have "post_pk p = post_id" by (rule get_post_pk)
  with p assms(2) show ?thesis
    by (simp add: LikeList_create_def check_permissions_authenticated LikeList_perform_create_def)
qed

lemma LikeList_create_success:
  assumes "LikeList_create (Some u) post_id st = (Inr l, st1)"
  shows "get_post st1 post_id \<noteq> None \<and> like_exists st1 post_id (user_pk u)
     \<and> likes st1 = likes st @ [l] \<and> like_post l = post_id \<and> like_user l = user_pk u
     \<and> \<not> like_exists st post_id (user_pk u)"
proof -
  from assms obtain p where p: "get_post st post_id = Some p"
    by (auto simp: LikeList_create_def check_permissions_authenticated
        LikeList_perform_create_def split: option.splits)
  then have "post_pk p = post_id" by (rule get_post_pk)
  with assms p show ?thesis
    by (auto simp: LikeList_create_def check_permissions_authenticated
        LikeList_perform_create_def Like_objects_create_def Let_def get_post_def like_exists_def
        split: if_splits)
qed

text \<open>
  C2, as the code has it. In every store that requests can produce there is at most
  one \<^verbatim>\<open>Like\<close> row for each pair of post and user. When the post exists and the
  user has liked it, \<^verbatim>\<open>LikeList.perform_create\<close> raises the \<open>ValidationError\<close> "you
  have already liked this post" and the store stays as it was (so does the count of
  likes, which is computed from the store); in particular a create that follows a
  successful create for the same pair, which added one like, is rejected so.
\<close>

theorem like_unique_second_create_rejected:
  "length (filter (\<lambda>l. like_post l = pid \<and> like_user l = uid)
             (likes (run g cs empty_store))) \<le> 1
   \<and> (get_post st post_id \<noteq> None \<and> like_exists st post_id (user_pk u) \<longrightarrow>
        LikeList_create (Some u) post_id st = (Inl (ValidationError AlreadyLiked), st))
   \<and> (LikeList_create (Some u) post_id st = (Inr l, st1) \<longrightarrow>
        likes_count st1 post_id = Suc (likes_count st post_id)
        \<and> LikeList_create (Some u) post_id st1 = (Inl (ValidationError AlreadyLiked), st1))"
proof (intro conjI impI)
  have "distinct (map (\<lambda>l. (like_post l, like_user l)) (likes (run g cs empty_store)))"
    using reachable_inv [of g cs] by (simp add: store_inv_def unique_likes_def)
  then have "length (filter (\<lambda>l. (like_post l, like_user l) = (pid, uid))
      (likes (run g cs empty_store))) \<le> Suc 0"
    by (rule distinct_key_count)
  then show "length (filter (\<lambda>l. like_post l = pid \<and> like_user l = uid)
      (likes (run g cs empty_store))) \<le> 1"
    by simp
next
  assume "get_post st post_id \<noteq> None \<and> like_exists st post_id (user_pk u)"
  then show "LikeList_create (Some u) post_id st = (Inl (ValidationError AlreadyLiked), st)"
    by (simp add: LikeList_create_duplicate)
next
  assume a: "LikeList_create (Some u) post_id st = (Inr l, st1)"
  from LikeList_create_success [OF a]
  show "likes_count st1 post_id = Suc (likes_count st post_id)"
    by (simp add: likes_count_def)
  from LikeList_create_success [OF a]
  show "LikeList_create (Some u) post_id st1 = (Inl (ValidationError AlreadyLiked), st1)"
    by (simp add: LikeList_create_duplicate)
qed

theorem like_unique_second_create_rejected_witness:
  "length (filter (\<lambda>l. like_post l = 1 \<and> like_user l = 2) (likes store1)) \<le> 1
   \<and> LikeList_create (Some user_b) 1 store1 = (Inl (ValidationError AlreadyLiked), store1)
   \<and> likes_count store1 1 = 1"
proof -
  have r: "run geo_none [CreatePost (Some user_a) data_uploaded [], CreateLike (Some user_b) 1,
      CreateComment (Some user_b) 1 ''nice''] empty_store = store1"
    by code_simp
  have h: "get_post store1 1 \<noteq> None \<and> like_exists store1 1 (user_pk user_b)"
    by code_simp
  have c: "likes_count store1 1 = 1"
    by code_simp
  from like_unique_second_create_rejected [of 1 2 geo_none
      "[CreatePost (Some user_a) data_uploaded [], CreateLike (Some user_b) 1,
        CreateComment (Some user_b) 1 ''nice'']" store1 1 user_b]
  show ?thesis
    using h c by (simp only: r) simp
qed

text \<open>
  C2 as stated names a conflict error of its own. The code has none: the second like
  of user B on post 1 is answered with a \<open>ValidationError\<close>, the exception that a
  post without an image is answered with.
\<close>

theorem duplicate_like_is_validation_error:
  "like_exists store1 1 (user_pk user_b)
   \<and> LikeList_create (Some user_b) 1 store1 = (Inl (ValidationError AlreadyLiked), store1)
   \<and> PostList_create geo_none (Some user_b) data_no_image [] store1
       = (Inl (ValidationError AtLeastOneImage), store1)"
  by code_simp

subsection \<open>Creating posts, images and comments\<close>

text \<open>
  C4 at a failing input. A post sent with its one picture in the \<^verbatim>\<open>image\<close> field
  passes \<^verbatim>\<open>validate\<close>, and \<^verbatim>\<open>PostSerializer.create\<close> then passes the field on to
  \<^verbatim>\<open>Post.objects.create\<close>, which raises \<open>TypeError\<close>: no post and no image is
  stored. A post sent with its picture under \<^verbatim>\<open>images\<close> in \<^verbatim>\<open>request.FILES\<close> passes
  both checks and is stored with no image row at all.
\<close>

theorem create_post_image_field_type_error:
  "PostList_create geo_none (Some user_a) data_image [] empty_store = (Inl TypeError, empty_store)
   \<and> (case PostList_create geo_none (Some user_a) data_no_image [''a.png''] empty_store of
         (r, st) \<Rightarrow> r = Inr post1 \<and> images st = [])"
  by code_simp

text \<open>
  What does hold: without any picture the request is rejected with the
  \<open>ValidationError\<close> "a post must have at least one attached image" and nothing is
  written; with \<open>n\<close> pictures in \<^verbatim>\<open>uploaded_images\<close>, no \<^verbatim>\<open>image\<close> field and a
  geocoding block that does not raise, the post is stored with exactly those \<open>n\<close>
  images.
\<close>

lemma create_post_without_image:
  "\<not> has_images d files \<Longrightarrow>
     PostList_create g (Some u) d files st = (Inl (ValidationError AtLeastOneImage), st)"
  by (simp add: PostList_create_def check_permissions_authenticated validate_def)

lemma get_coordinates_no_error:
  "get_coordinates g name =
     Inr (case geo_geocode g name of
            Returns (Some (lat, lon)) \<Rightarrow> (Some lat, Some lon) | _ \<Rightarrow> (None, None))"
  by (cases "geo_geocode g name") (auto simp: get_coordinates_def split: option.splits)

lemma save_coordinates_no_error: "\<exists>q. save_coordinates g p = Inr q"
  by (auto simp: save_coordinates_def get_coordinates_no_error
      split: option.splits outcome.splits)

lemma save_coordinates_keeps:
  "save_coordinates g p = Inr q \<Longrightarrow> post_pk q = post_pk p \<and> post_author q = post_author p"
  by (auto simp: save_coordinates_def get_coordinates_no_error
      split: option.splits outcome.splits if_splits)

lemma create_images_rows:
  "get_post st pid \<noteq> None \<Longrightarrow>
     \<exists>st1. create_images st pid imgs = (Inr (), st1)
       \<and> posts st1 = posts st
       \<and> map image_file (filter (\<lambda>i. image_post i = pid) (images st1))
            = map image_file (filter (\<lambda>i. image_post i = pid) (images st)) @ imgs"
proof (induction imgs arbitrary: st)
  case Nil
  then show ?case by simp
next
  case (Cons img imgs)
  let ?st = "st\<lparr>images := images st @ [\<lparr>image_pk = next_image_pk st, image_post = pid,
      image_file = img\<rparr>], next_image_pk := Suc (next_image_pk st)\<rparr>"
  from Cons.prems have "get_post ?st pid \<noteq> None" by (simp add: get_post_def)
  from Cons.IH [OF this] Cons.prems show ?case
    by (auto simp: PostImage_objects_create_def Let_def)
qed

lemma create_post_with_uploaded_images:
  assumes "d_uploaded_images d = Some imgs" and "imgs \<noteq> []" and "d_image d = None"
    and "create_location g (d_location_name d) = Inr loc"
    and "\<forall>i\<in>set (images st). image_post i \<noteq> next_post_pk st"
  shows "\<exists>p st1. PostList_create g (Some u) d files st = (Inr p, st1)
     \<and> post_pk p = next_post_pk st \<and> post_author p = user_pk u
     \<and> map image_file (filter (\<lambda>i. image_post i = post_pk p) (images st1)) = imgs"
proof -
  obtain name lat lon where loc: "loc = (name, lat, lon)" by (cases loc) auto
  let ?kw = "\<lparr>kw_author = user_pk u, kw_text = d_text d, kw_location_name = name,
      kw_latitude = lat, kw_longitude = lon, kw_image = None\<rparr>"
  obtain p where p: "save_coordinates g
      \<lparr>post_pk = next_post_pk st, post_author = kw_author ?kw, post_text = kw_text ?kw,
       location_name = kw_location_name ?kw, latitude = kw_latitude ?kw,
       longitude = kw_longitude ?kw\<rparr> = Inr p"
    using save_coordinates_no_error by blast
  from save_coordinates_keeps [OF p]
  have pk: "post_pk p = next_post_pk st" and au: "post_author p = user_pk u"
    by simp_all
  let ?st0 = "st\<lparr>posts := posts st @ [p], next_post_pk := Suc (next_post_pk st)\<rparr>"
  have c: "Post_objects_create g st ?kw = (Inr p, ?st0)"
    using p by (simp add: Post_objects_create_def)
  have "get_post ?st0 (post_pk p) \<noteq> None"
    by (auto simp: get_post_def find_None_iff)
  from create_images_rows [OF this, of imgs] obtain st1 where
    st1: "create_images ?st0 (post_pk p) imgs = (Inr (), st1)"
    and rows: "map image_file (filter (\<lambda>i. image_post i = post_pk p) (images st1))
       = map image_file (filter (\<lambda>i. image_post i = post_pk p) (images ?st0)) @ imgs"
    by blast
  from assms(5) pk have "filter (\<lambda>i. image_post i = post_pk p) (images ?st0) = []"
    by (simp add: filter_empty_conv)
  with rows have "map image_file (filter (\<lambda>i. image_post i = post_pk p) (images st1)) = imgs"
    by simp
  moreover have "PostList_create g (Some u) d files st = (Inr p, st1)"
    using assms(1-4) loc c st1
    by (simp add: PostList_create_def check_permissions_authenticated validate_def
        has_images_def PostSerializer_create_def)
  ultimately show ?thesis using pk au by blast
qed


lemma create_image_never_404: "fst (PostImageList_create u post_id img st) \<noteq> Inl Http404"
  by (cases u) (auto simp: PostImageList_create_def check_permissions_def permission_denied_def
      PostImageList_permission_classes_def SAFE_METHODS_def PostImageList_perform_create_def
      PostImage_objects_create_def Let_def)

lemma create_image_error_writes_nothing:
  "fst (PostImageList_create u post_id img st) = Inl e \<Longrightarrow>
     snd (PostImageList_create u post_id img st) = st"
  by (auto simp: PostImageList_create_def PostImageList_perform_create_def
      PostImage_objects_create_def Let_def split: option.splits if_splits)

lemma create_comment_missing_post:
  "get_post st post_id = None \<Longrightarrow>
     CommentList_create (Some u) post_id body st = (Inl Http404, st)"
  by (simp add: CommentList_create_def check_permissions_authenticated
      CommentList_perform_create_def)

subsection \<open>Geocoding\<close>

text \<open>
  C7 at a failing input. The post on the equator has both coordinates stored, and
  the service would name the place; \<^verbatim>\<open>location_address\<close> tests the coordinates for
  truth, finds latitude 0 false, sends no lookup and returns the stored name.
\<close>

theorem equator_post_address_not_looked_up:
  "latitude post_equator = Some 0 \<and> longitude post_equator = Some 10500000
   \<and> geo_reverse geo_paris (0, 10500000) = Returns (Some ''Paris, France'')
   \<and> location_address geo_paris post_equator = (Inr ''Equator'', [])"
  by code_simp

text \<open>
  What does hold: with both coordinates stored and not zero, one lookup is sent; its
  address is returned when there is one and it is not empty; otherwise, also when
  the lookup raises, the stored name or the empty string is returned. No geocoder
  exception leaves \<open>location_address\<close>.
\<close>

lemma location_address_nonzero:
  assumes "latitude p = Some lat" and "longitude p = Some lon" and "lat \<noteq> 0" and "lon \<noteq> 0"
  shows "location_address g p =
     (Inr (case geo_reverse g (lat, lon) of
             Returns (Some a) \<Rightarrow>
               if a \<noteq> [] then a else (case location_name p of None \<Rightarrow> [] | Some n \<Rightarrow> n)
           | _ \<Rightarrow> (case location_name p of None \<Rightarrow> [] | Some n \<Rightarrow> n)),
      [(lat, lon)])"
  using assms
  by (cases "geo_reverse g (lat, lon)")
     (auto simp: location_address_def get_location_name_def split: option.splits)

lemma location_address_no_error: "\<exists>a. fst (location_address g p) = Inr a"
proof (cases "\<exists>lat lon. latitude p = Some lat \<and> longitude p = Some lon \<and> lat \<noteq> 0 \<and> lon \<noteq> 0")
  case True
  then show ?thesis by (auto simp: location_address_nonzero)
next
  case False
  then show ?thesis
    by (auto simp: location_address_def split: option.splits)
qed



text \<open>
  C8 at a failing input. \<^verbatim>\<open>PostSerializer.create\<close> catches \<^verbatim>\<open>GeocoderUnavailable\<close>
  only: when the service times out while a post with a location name is created, the
  exception leaves the view and no post is stored. (When the service finds nothing,
  the post is stored, without coordinates and without the name.)
\<close>

theorem create_post_timeout_aborts:
  "geo_geocode geo_timeout ''Paris'' = Raises GeocoderTimedOut
   \<and> PostList_create geo_timeout (Some user_a) data_located [] empty_store
       = (Inl (Uncaught GeocoderTimedOut), empty_store)
   \<and> fst (PostList_create geo_none (Some user_a) data_located [] empty_store) = Inr post1"
  by code_simp

text \<open>
  What does hold: \<^verbatim>\<open>get_coordinates\<close>, which \<^verbatim>\<open>Post.save\<close> uses, catches the timeout
  and every other service error, so that saving a post never fails on the geocoder,
  and a lookup that raises or finds nothing leaves the coordinates as they were.
\<close>

lemma save_coordinates_lookup_failed:
  assumes "geo_geocode g name = Raises e \<or> geo_geocode g name = Returns None"
    and "location_name p = Some name"
  shows "save_coordinates g p = Inr p"
  using assms by (auto simp: save_coordinates_def get_coordinates_no_error)

lemma Post_save_no_error: "\<exists>q. fst (Post_save g st p) = Inr q"
  using save_coordinates_no_error [of g p] by (auto simp: Post_save_def)

subsection \<open>Deleting a post\<close>

lemma keys_distinct_eq:
  assumes "distinct (map pk rows)" and "i \<in> set rows" and "j \<in> set rows" and "pk i = pk j"
  shows "i = j"
  using assms by (meson distinct_map inj_onD)

lemma find_filter_gone:
  assumes "distinct (map pk rows)" and "i \<in> set rows" and "\<not> P i"
  shows "find (\<lambda>j. pk j = pk i) (filter P rows) = None"
proof -
  have "\<not> (\<exists>j\<in>set (filter P rows). pk j = pk i)"
    using assms(3) keys_distinct_eq [OF assms(1) assms(2)] by fastforce
  then show ?thesis by (simp add: find_None_iff)
qed

lemma retrieve_missing:
  assumes "check_permissions classes GET v = None"
  shows "initial_get_object classes GET v model None = Inl Http404"
  using assms by (simp add: initial_get_object_def get_object_def)

lemma check_permissions_read_only:
  "check_permissions [IsAuthenticatedOrReadOnly, IsAuthorOrReadOnly] GET v = None"
  by (simp add: check_permissions_def SAFE_METHODS_def)

lemma PostDetail_destroy_author:
  assumes "get_post st pk = Some p" and "post_author p = user_pk u"
  shows "PostDetail_destroy (Some u) pk st = (Inr (), Post_delete st pk)"
proof -
  from assms(1) have pk: "post_pk p = pk" by (rule get_post_pk)
  have "initial_get_object PostDetail_permission_classes DELETE (Some u) PostObj (Some p) = Inr p"
    using assms(2)
    by (simp add: initial_get_object_def check_permissions_authenticated get_object_def
        PostDetail_permission_classes_def has_object_permission_def author_or_user_def)
  with assms pk show ?thesis
    by (simp add: PostDetail_destroy_def AuthorCheckMixin_perform_destroy_def author_or_user_def)
qed

text \<open>
  C3. In every store that requests can produce, the author's \<^verbatim>\<open>DELETE\<close> of an
  existing post succeeds and leaves the store that \<^verbatim>\<open>Post.delete\<close> with its cascade
  gives (the admin's \<^verbatim>\<open>delete_model\<close> gives the same store). A full scan of that
  store finds no image, like, comment or post with the post's key, and every row of
  another post is still there. Retrieving the post, or any image or comment that
  pointed to it, then ends with \<open>Http404\<close> for every requester, and so does
  retrieving any like that pointed to it for every authenticated requester (the like
  views answer only those).
\<close>

theorem delete_post_cascades:
  assumes "st = run g cs empty_store" and "get_post st pk = Some p"
    and "post_author p = user_pk u"
  shows "PostDetail_destroy (Some u) pk st = (Inr (), Post_delete st pk)
    \<and> delete_model st p = Post_delete st pk
    \<and> filter (\<lambda>i. image_post i = pk) (images (Post_delete st pk)) = []
    \<and> filter (\<lambda>l. like_post l = pk) (likes (Post_delete st pk)) = []
    \<and> filter (\<lambda>c. comment_post c = pk) (comments (Post_delete st pk)) = []
    \<and> filter (\<lambda>q. post_pk q = pk) (posts (Post_delete st pk)) = []
    \<and> filter (\<lambda>i. image_post i \<noteq> pk) (images (Post_delete st pk))
        = filter (\<lambda>i. image_post i \<noteq> pk) (images st)
    \<and> filter (\<lambda>l. like_post l \<noteq> pk) (likes (Post_delete st pk))
        = filter (\<lambda>l. like_post l \<noteq> pk) (likes st)
    \<and> filter (\<lambda>c. comment_post c \<noteq> pk) (comments (Post_delete st pk))
        = filter (\<lambda>c. comment_post c \<noteq> pk) (comments st)
    \<and> filter (\<lambda>q. post_pk q \<noteq> pk) (posts (Post_delete st pk))
        = filter (\<lambda>q. post_pk q \<noteq> pk) (posts st)
    \<and> PostDetail_retrieve v pk (Post_delete st pk) = Inl Http404
    \<and> (\<forall>i\<in>set (images st). image_post i = pk \<longrightarrow>
          PostImageDetail_retrieve v (image_pk i) (Post_delete st pk) = Inl Http404)
    \<and> (\<forall>l\<in>set (likes st). like_post l = pk \<longrightarrow>
          LikeDetail_retrieve (Some w) (like_pk l) (Post_delete st pk) = Inl Http404)
    \<and> (\<forall>c\<in>set (comments st). comment_post c = pk \<longrightarrow>
          CommentDetail_retrieve v (comment_pk c) (Post_delete st pk) = Inl Http404)"
proof -
  from assms(2) have pk: "post_pk p = pk" by (rule get_post_pk)
  have inv: "store_inv st" unfolding assms(1) by (rule reachable_inv)
  then have di: "distinct (map image_pk (images st))"
    and dl: "distinct (map like_pk (likes st))"
    and dc: "distinct (map comment_pk (comments st))"
    by (simp_all add: store_inv_def keys_fresh_def)
  have 1: "PostDetail_destroy (Some u) pk st = (Inr (), Post_delete st pk)"
    using assms(2,3) by (rule PostDetail_destroy_author)
  have 2: "delete_model st p = Post_delete st pk"
    by (simp add: delete_model_def Post_delete_def pk)
  have "get_post (Post_delete st pk) pk = None"
    by (simp add: Post_delete_def get_post_def find_None_iff)
  then have 3: "PostDetail_retrieve v pk (Post_delete st pk) = Inl Http404"
    by (simp add: PostDetail_retrieve_def
        PostDetail_permission_classes_def retrieve_missing check_permissions_read_only)
  have 4: "PostImageDetail_retrieve v (image_pk i) (Post_delete st pk) = Inl Http404"
    if "i \<in> set (images st)" and "image_post i = pk" for i
    using find_filter_gone [OF di that(1), of "\<lambda>i. image_post i \<noteq> pk"] that(2)
    by (simp add: PostImageDetail_retrieve_def Post_delete_def get_image_def
        PostImageDetail_permission_classes_def retrieve_missing check_permissions_read_only)
  have 5: "LikeDetail_retrieve (Some w) (like_pk l) (Post_delete st pk) = Inl Http404"
    if "l \<in> set (likes st)" and "like_post l = pk" for l
    using find_filter_gone [OF dl that(1), of "\<lambda>l. like_post l \<noteq> pk"] that(2)
    by (simp add: LikeDetail_retrieve_def Post_delete_def get_like_def
        retrieve_missing check_permissions_authenticated)
  have 6: "CommentDetail_retrieve v (comment_pk c) (Post_delete st pk) = Inl Http404"
    if "c \<in> set (comments st)" and "comment_post c = pk" for c
    using find_filter_gone [OF dc that(1), of "\<lambda>c. comment_post c \<noteq> pk"] that(2)
    by (simp add: CommentDetail_retrieve_def Post_delete_def get_comment_def
        CommentDetail_permission_classes_def retrieve_missing check_permissions_read_only)
  have 7: "filter (\<lambda>i. image_post i = pk) (images (Post_delete st pk)) = []"
    "filter (\<lambda>l. like_post l = pk) (likes (Post_delete st pk)) = []"
    "filter (\<lambda>c. comment_post c = pk) (comments (Post_delete st pk)) = []"
    "filter (\<lambda>q. post_pk q = pk) (posts (Post_delete st pk)) = []"
    by (simp_all add: Post_delete_def filter_empty_conv)
  have 8: "filter (\<lambda>i. image_post i \<noteq> pk) (images (Post_delete st pk))
        = filter (\<lambda>i. image_post i \<noteq> pk) (images st)"
    "filter (\<lambda>l. like_post l \<noteq> pk) (likes (Post_delete st pk))
        = filter (\<lambda>l. like_post l \<noteq> pk) (likes st)"
    "filter (\<lambda>c. comment_post c \<noteq> pk) (comments (Post_delete st pk))
        = filter (\<lambda>c. comment_post c \<noteq> pk) (comments st)"
    "filter (\<lambda>q. post_pk q \<noteq> pk) (posts (Post_delete st pk))
        = filter (\<lambda>q. post_pk q \<noteq> pk) (posts st)"
    by (simp_all add: Post_delete_def)
  from 1 2 3 4 5 6 7 8 show ?thesis by blast
qed

theorem delete_post_cascades_witness:
  "PostDetail_destroy (Some user_a) 1 store1 = (Inr (), Post_delete store1 1)
   \<and> images (Post_delete store1 1) = [] \<and> likes (Post_delete store1 1) = []
   \<and> comments (Post_delete store1 1) = [] \<and> posts (Post_delete store1 1) = []
   \<and> PostDetail_retrieve None 1 (Post_delete store1 1) = Inl Http404
   \<and> PostImageDetail_retrieve None 1 (Post_delete store1 1) = Inl Http404
   \<and> LikeDetail_retrieve (Some user_a) 1 (Post_delete store1 1) = Inl Http404"
proof -
  have r: "store1 = run geo_none [CreatePost (Some user_a) data_uploaded [],
      CreateLike (Some user_b) 1, CreateComment (Some user_b) 1 ''nice''] empty_store"
    by code_simp
  have p: "get_post store1 1 = Some post1"
    by code_simp
  have a: "post_author post1 = user_pk user_a"
    by code_simp
  have e: "images (Post_delete store1 1) = [] \<and> likes (Post_delete store1 1) = []
      \<and> comments (Post_delete store1 1) = [] \<and> posts (Post_delete store1 1) = []"
    by code_simp
  have m: "image1 \<in> set (images store1) \<and> image_post image1 = 1 \<and> image_pk image1 = 1
      \<and> like1 \<in> set (likes store1) \<and> like_post like1 = 1 \<and> like_pk like1 = 1"
    by (simp add: store1_def image1_def like1_def)
  from delete_post_cascades [OF r p a, of None user_a] e m show ?thesis
    by metis
qed

subsection \<open>Changing and deleting likes\<close>





end
